theory Spec2Isabelle
  imports
    Complex_Main
    "HOL-Library.AList"
    "HOL-Library.Multiset"
    "HOL-Library.Product_Lexorder"
    "HOL-Library.List_Lexorder"
    "HOL-Library.Char_ord"
begin

section \<open>Values, documents and Python dictionaries\<close>

text \<open>
  The todo service keeps its records as MongoDB documents, which the Python code handles
  as dictionaries from field names to values. A dictionary is an association list with
  distinct keys in insertion order: \<open>AList.update\<close> is Python's \<open>d[k] = v\<close> (an existing
  key keeps its place, a new key goes to the end), \<open>AList.delete\<close> is \<open>d.pop(k, None)\<close>
  and \<open>map_of\<close> is the lookup.

  The values that occur are \<open>None\<close>, booleans, strings, datetimes and ObjectIds. A
  datetime is the instant it denotes, as an integer at the store's resolution. An
  ObjectId is the number its twelve bytes encode; how a string is parsed into one and
  how one is printed belongs to the \<open>bson\<close> library and both are parameters of the
  handlers below.
\<close>

type_synonym ObjectId = nat

datatype pyval =
    PyNone
  | PyBool bool
  | PyStr string
  | PyDatetime int
  | PyObjectId ObjectId

type_synonym document = "(string \<times> pyval) list"

text \<open>Python's truth value of an object, as used by \<open>if x:\<close> and \<open>not x\<close>.\<close>

fun truthy :: "pyval \<Rightarrow> bool" where
  "truthy PyNone = False"
| "truthy (PyBool b) = b"
| "truthy (PyStr s) = (s \<noteq> [])"
| "truthy (PyDatetime t) = True"
| "truthy (PyObjectId i) = True"

text \<open>\<open>d.get(k, default)\<close>\<close>

definition dict_get :: "document \<Rightarrow> string \<Rightarrow> pyval \<Rightarrow> pyval" where
  "dict_get d k dflt = (case map_of d k of Some v \<Rightarrow> v | None \<Rightarrow> dflt)"

datatype py_exception = KeyError string | DuplicateKeyError ObjectId

section \<open>The document store\<close>

text \<open>
  A collection is the list of its documents in stored order. The operations are the
  ones of \<open>pymongo.collection.Collection\<close> that the handlers call. A query document
  \<open>{k1: v1, ...}\<close> matches a document whose fields \<open>k1, ...\<close> hold exactly these
  values (the handlers only query for ObjectIds and for \<open>False\<close>). The store is taken to
  answer every call: network and server failures are outside the model.
\<close>

type_synonym Collection = "document list"

definition matches :: "document \<Rightarrow> document \<Rightarrow> bool" where
  "matches query d = list_all (\<lambda>(k, v). map_of d k = Some v) query"

definition find_one :: "document \<Rightarrow> Collection \<Rightarrow> document option" where
  "find_one query collection = List.find (matches query) collection"

definition find_docs :: "document \<Rightarrow> Collection \<Rightarrow> document list" where
  "find_docs query collection = filter (matches query) collection"

definition count_documents :: "document \<Rightarrow> Collection \<Rightarrow> int" where
  "count_documents query collection = int (length (filter (matches query) collection))"

text \<open>The update operator \<open>$set\<close>: every listed field is assigned, in order.\<close>

fun set_fields :: "document \<Rightarrow> document \<Rightarrow> document" where
  "set_fields [] d = d"
| "set_fields ((k, v) # kvs) d = set_fields kvs (AList.update k v d)"

text \<open>\<open>update_one\<close> and \<open>delete_one\<close> act on the first document that matches.\<close>

fun update_one :: "document \<Rightarrow> document \<Rightarrow> Collection \<Rightarrow> Collection" where
  "update_one query kvs [] = []"
| "update_one query kvs (d # ds) =
     (if matches query d then set_fields kvs d # ds else d # update_one query kvs ds)"

fun delete_one :: "document \<Rightarrow> Collection \<Rightarrow> Collection" where
  "delete_one query [] = []"
| "delete_one query (d # ds) =
     (if matches query d then ds else d # delete_one query ds)"

text \<open>
  \<open>insert_one\<close> gives the document an \<open>_id\<close> (the driver generates it; here it is the
  argument \<open>new_id\<close>) and stores it with \<open>_id\<close> as its first field. The unique index
  on \<open>_id\<close> refuses an identifier that is already in the collection.
\<close>

definition insert_one ::
  "document \<Rightarrow> ObjectId \<Rightarrow> Collection \<Rightarrow> py_exception + (ObjectId \<times> Collection)" where
  "insert_one d new_id collection =
     (if find_one [(''_id'', PyObjectId new_id)] collection \<noteq> None
      then Inl (DuplicateKeyError new_id)
      else Inr (new_id, collection @ [(''_id'', PyObjectId new_id) # d]))"

text \<open>
  The order in which MongoDB compares values of a field when it sorts: the type bracket
  first (null, string, ObjectId, boolean, date), then the value inside the bracket. A
  document without the field sorts as if the field were null.
\<close>

fun bson_key :: "pyval \<Rightarrow> nat \<times> int \<times> string" where
  "bson_key PyNone = (2, 0, [])"
| "bson_key (PyStr s) = (4, 0, s)"
| "bson_key (PyObjectId i) = (8, int i, [])"
| "bson_key (PyBool b) = (9, (if b then 1 else 0), [])"
| "bson_key (PyDatetime t) = (10, t, [])"

definition field_key :: "string \<Rightarrow> document \<Rightarrow> nat \<times> int \<times> string" where
  "field_key k d = bson_key (dict_get d k PyNone)"

text \<open>
  \<open>cursor.sort([(k, -1)])\<close>: descending on field \<open>k\<close>. MongoDB leaves the order of
  documents with equal keys open; here they keep their stored order.
\<close>

definition sort_desc :: "string \<Rightarrow> document list \<Rightarrow> document list" where
  "sort_desc k ds = rev (sort_key (field_key k) (rev ds))"

fun cursor_sort :: "(string \<times> int) list \<Rightarrow> document list \<Rightarrow> document list" where
  "cursor_sort [] ds = ds"
| "cursor_sort ((k, dir) # rest) ds = sort_desc k ds"

section \<open>Schemas (schemas/todo.py)\<close>

text \<open>
  A field of a JSON request body is absent, \<open>null\<close>, or a value of the field's type;
  bodies with a value of another type are outside the model.
\<close>

datatype 'a field = Absent | Null | Val 'a

record create_body =
  body_title :: "string field"
  body_description :: "string field"
  body_completed :: "bool field"

text \<open>\<open>TodoCreate\<close> (\<open>TodoBase\<close>): \<open>title: str\<close>, \<open>description: Optional[str] = None\<close>,
  \<open>completed: bool = False\<close>.\<close>

record TodoCreate =
  title :: string
  description :: "string option"
  completed :: bool

text \<open>Validation of a request body against \<open>TodoCreate\<close>; the error lists the fields
  that failed.\<close>

definition TodoCreate_validate :: "create_body \<Rightarrow> string list + TodoCreate" where
  "TodoCreate_validate b =
     (let errs =
        (case body_title b of Val t \<Rightarrow> [] | _ \<Rightarrow> [''title'']) @
        (case body_completed b of Null \<Rightarrow> [''completed''] | _ \<Rightarrow> [])
      in if errs \<noteq> [] then Inl errs
         else Inr \<lparr> title = (case body_title b of Val t \<Rightarrow> t | _ \<Rightarrow> []),
                    description = (case body_description b of Val s \<Rightarrow> Some s | _ \<Rightarrow> None),
                    completed = (case body_completed b of Val c \<Rightarrow> c | _ \<Rightarrow> False) \<rparr>)"

definition TodoCreate_model_dump :: "TodoCreate \<Rightarrow> document" where
  "TodoCreate_model_dump todo =
     [(''title'', PyStr (title todo)),
      (''description'', (case description todo of None \<Rightarrow> PyNone | Some s \<Rightarrow> PyStr s)),
      (''completed'', PyBool (completed todo))]"

text \<open>\<open>TodoUpdate\<close>: three optional fields, default \<open>None\<close>. The model remembers which
  fields the request set: \<open>Absent\<close> is a field that was not set, \<open>Null\<close> one set to
  \<open>None\<close>.\<close>

record TodoUpdate =
  upd_title :: "string field"
  upd_description :: "string field"
  upd_completed :: "bool field"

text \<open>\<open>model_dump(exclude_unset=True)\<close>: the fields that were set, in declaration order.\<close>

definition TodoUpdate_model_dump_exclude_unset :: "TodoUpdate \<Rightarrow> document" where
  "TodoUpdate_model_dump_exclude_unset todo =
     (case upd_title todo of Absent \<Rightarrow> [] | Null \<Rightarrow> [(''title'', PyNone)]
        | Val s \<Rightarrow> [(''title'', PyStr s)]) @
     (case upd_description todo of Absent \<Rightarrow> [] | Null \<Rightarrow> [(''description'', PyNone)]
        | Val s \<Rightarrow> [(''description'', PyStr s)]) @
     (case upd_completed todo of Absent \<Rightarrow> [] | Null \<Rightarrow> [(''completed'', PyNone)]
        | Val c \<Rightarrow> [(''completed'', PyBool c)])"

text \<open>The envelope of a list answer; the selectors carry the prefix \<open>p_\<close>.\<close>

record PaginatedResponse =
  p_current_page :: int
  p_total_pages :: int
  p_items_per_page :: int
  p_total_items :: int
  p_data :: "document list"

section \<open>Document mapper (app/models.py)\<close>

definition create_todo_document :: "int \<Rightarrow> document \<Rightarrow> py_exception + document" where
  "create_todo_document now todo_dict =
     (case map_of todo_dict ''title'' of
        None \<Rightarrow> Inl (KeyError ''title'')
      | Some t \<Rightarrow>
          Inr [(''title'', t),
               (''description'', dict_get todo_dict ''description'' (PyStr [])),
               (''completed'', dict_get todo_dict ''completed'' (PyBool False)),
               (''created_at'', PyDatetime now),
               (''updated_at'', PyDatetime now),
               (''deleted'', PyBool False),
               (''deleted_at'', PyNone)])"

text \<open>\<open>format_todo_response\<close> takes what \<open>find_one\<close> returned: \<open>None\<close> or a document.
  \<open>str\<close> is Python's \<open>str\<close> on the identifier.\<close>

definition format_todo_response ::
  "(pyval \<Rightarrow> string) \<Rightarrow> document option \<Rightarrow> py_exception + document" where
  "format_todo_response str todo_document =
     (case todo_document of
        None \<Rightarrow> Inr []
      | Some d \<Rightarrow>
          if d = [] then Inr []
          else (case map_of d ''_id'' of
                  None \<Rightarrow> Inl (KeyError ''_id'')
                | Some i \<Rightarrow> Inr (AList.delete ''_id'' (AList.update ''id'' (PyStr (str i)) d))))"

section \<open>Handlers (routes/todo.py) and the validation handler (app/main.py)\<close>

text \<open>
  A request fails with an \<open>HTTPException\<close> of the handler, with the handler's
  \<open>HTTPException(500, "Database error: " + str(e))\<close> for an exception \<open>e\<close> caught around
  the store calls, with a \<open>RequestValidationError\<close> of the framework (the fields that
  failed), or with an exception no handler catches.
\<close>

datatype failure =
    HTTPException int string
  | DatabaseError py_exception
  | RequestValidationError "string list"
  | Uncaught py_exception

text \<open>The status the client sees: \<open>validation_exception_handler\<close> answers a validation
  error with 400, the framework answers an uncaught exception with 500.\<close>

fun status_code :: "failure \<Rightarrow> int" where
  "status_code (HTTPException s detail) = s"
| "status_code (DatabaseError e) = 500"
| "status_code (RequestValidationError errs) = 400"
| "status_code (Uncaught e) = 500"

definition create_todo ::
  "(pyval \<Rightarrow> string) \<Rightarrow> ObjectId \<Rightarrow> int \<Rightarrow> TodoCreate \<Rightarrow> Collection
     \<Rightarrow> (failure + document) \<times> Collection" where
  "create_todo str new_id now todo collection =
     (let todo_dict = TodoCreate_model_dump todo in
      case create_todo_document now todo_dict of
        Inl e \<Rightarrow> (Inl (DatabaseError e), collection)
      | Inr todo_document \<Rightarrow>
          (case insert_one todo_document new_id collection of
             Inl e \<Rightarrow> (Inl (DatabaseError e), collection)
           | Inr (inserted_id, collection') \<Rightarrow>
               (let created_todo = find_one [(''_id'', PyObjectId inserted_id)] collection' in
                case format_todo_response str created_todo of
                  Inl e \<Rightarrow> (Inl (DatabaseError e), collection')
                | Inr r \<Rightarrow> (Inr r, collection'))))"

text \<open>The route \<open>POST /todos/\<close>: the body is validated against \<open>TodoCreate\<close> before the
  handler runs.\<close>

definition post_todos ::
  "(pyval \<Rightarrow> string) \<Rightarrow> ObjectId \<Rightarrow> int \<Rightarrow> create_body \<Rightarrow> Collection
     \<Rightarrow> (failure + document) \<times> Collection" where
  "post_todos str new_id now body collection =
     (case TodoCreate_validate body of
        Inl errs \<Rightarrow> (Inl (RequestValidationError errs), collection)
      | Inr todo \<Rightarrow> create_todo str new_id now todo collection)"

fun format_all :: "(pyval \<Rightarrow> string) \<Rightarrow> document list \<Rightarrow> py_exception + document list" where
  "format_all str [] = Inr []"
| "format_all str (d # ds) =
     (case format_todo_response str (Some d) of
        Inl e \<Rightarrow> Inl e
      | Inr r \<Rightarrow> (case format_all str ds of Inl e \<Rightarrow> Inl e | Inr rs \<Rightarrow> Inr (r # rs)))"

text \<open>\<open>GET /todos/\<close>: \<open>items_per_page\<close> and \<open>page_number\<close> are declared \<open>gt=0\<close> and
  checked by the framework before the handler runs; \<open>sort_by\<close> is any string or absent.\<close>

definition read_todos ::
  "(pyval \<Rightarrow> string) \<Rightarrow> bool \<Rightarrow> string option \<Rightarrow> int \<Rightarrow> int \<Rightarrow> Collection
     \<Rightarrow> failure + PaginatedResponse" where
  "read_todos str include_deleted sort_by items_per_page page_number collection =
     (if \<not> (items_per_page > 0 \<and> page_number > 0)
      then Inl (RequestValidationError
                  ((if items_per_page > 0 then [] else [''items_per_page'']) @
                   (if page_number > 0 then [] else [''page_number''])))
      else
       (let query_filter = (if include_deleted then [] else [(''deleted'', PyBool False)]);
            total_items = count_documents query_filter collection;
            total_pages = (total_items + items_per_page - 1) div items_per_page;
            skip = (page_number - 1) * items_per_page;
            sort_options =
              (if sort_by = Some ''date'' then [(''created_at'', - 1)]
               else if sort_by = Some ''completed'' then [(''completed'', - 1)]
               else [])
        in if skip \<ge> total_items
           then Inr \<lparr> p_current_page = page_number, p_total_pages = total_pages,
                      p_items_per_page = items_per_page, p_total_items = total_items,
                      p_data = [] \<rparr>
           else
            (let cursor = find_docs query_filter collection;
                 cursor = (if sort_options \<noteq> [] then cursor_sort sort_options cursor
                           else cursor);
                 cursor = take (nat items_per_page) (drop (nat skip) cursor)
             in case format_all str cursor of
                  Inl e \<Rightarrow> Inl (Uncaught e)
                | Inr todos \<Rightarrow>
                    Inr \<lparr> p_current_page = page_number, p_total_pages = total_pages,
                          p_items_per_page = items_per_page, p_total_items = total_items,
                          p_data = todos \<rparr>)))"

definition read_todo ::
  "(string \<Rightarrow> ObjectId option) \<Rightarrow> (pyval \<Rightarrow> string) \<Rightarrow> string \<Rightarrow> Collection
     \<Rightarrow> failure + document" where
  "read_todo parse_id str todo_id collection =
     (case parse_id todo_id of
        None \<Rightarrow> Inl (HTTPException 400 ''Invalid ID format'')
      | Some obj_id \<Rightarrow>
          (case find_one [(''_id'', PyObjectId obj_id)] collection of
             None \<Rightarrow> Inl (HTTPException 404 ''Todo not found'')
           | Some todo \<Rightarrow>
               if truthy (dict_get todo ''deleted'' (PyBool False))
               then Inl (HTTPException 404 ''Todo was deleted'')
               else (case format_todo_response str (Some todo) of
                       Inl e \<Rightarrow> Inl (Uncaught e)
                     | Inr r \<Rightarrow> Inr r)))"

definition update_todo ::
  "(string \<Rightarrow> ObjectId option) \<Rightarrow> (pyval \<Rightarrow> string) \<Rightarrow> int \<Rightarrow> string \<Rightarrow> TodoUpdate
     \<Rightarrow> Collection \<Rightarrow> (failure + document) \<times> Collection" where
  "update_todo parse_id str now todo_id todo collection =
     (case parse_id todo_id of
        None \<Rightarrow> (Inl (HTTPException 400 ''Invalid ID format''), collection)
      | Some obj_id \<Rightarrow>
          (case find_one [(''_id'', PyObjectId obj_id)] collection of
             None \<Rightarrow> (Inl (HTTPException 404 ''Todo not found''), collection)
           | Some db_todo \<Rightarrow>
               if truthy (dict_get db_todo ''deleted'' (PyBool False))
               then (Inl (HTTPException 400 ''Cannot update deleted todo''), collection)
               else
                (let update_data =
                       filter (\<lambda>(k, v). v \<noteq> PyNone) (TodoUpdate_model_dump_exclude_unset todo);
                     collection' =
                       (if update_data \<noteq> []
                        then update_one [(''_id'', PyObjectId obj_id)]
                               (AList.update ''updated_at'' (PyDatetime now) update_data)
                               collection
                        else collection);
                     updated_todo = find_one [(''_id'', PyObjectId obj_id)] collection'
                 in case format_todo_response str updated_todo of
                      Inl e \<Rightarrow> (Inl (Uncaught e), collection')
                    | Inr r \<Rightarrow> (Inr r, collection'))))"

definition delete_todo ::
  "(string \<Rightarrow> ObjectId option) \<Rightarrow> (pyval \<Rightarrow> string) \<Rightarrow> int \<Rightarrow> string \<Rightarrow> bool
     \<Rightarrow> Collection \<Rightarrow> (failure + document) \<times> Collection" where
  "delete_todo parse_id str now todo_id permanent collection =
     (case parse_id todo_id of
        None \<Rightarrow> (Inl (HTTPException 400 ''Invalid ID format''), collection)
      | Some obj_id \<Rightarrow>
          (case find_one [(''_id'', PyObjectId obj_id)] collection of
             None \<Rightarrow> (Inl (HTTPException 404 ''Todo not found''), collection)
           | Some db_todo \<Rightarrow>
               (let collection' =
                      (if permanent
                       then delete_one [(''_id'', PyObjectId obj_id)] collection
                       else update_one [(''_id'', PyObjectId obj_id)]
                              [(''deleted'', PyBool True), (''deleted_at'', PyDatetime now)]
                              collection)
                in case format_todo_response str (Some db_todo) of
                     Inl e \<Rightarrow> (Inl (DatabaseError e), collection')
                   | Inr r \<Rightarrow> (Inr r, collection'))))"

definition restore_todo ::
  "(string \<Rightarrow> ObjectId option) \<Rightarrow> (pyval \<Rightarrow> string) \<Rightarrow> string
     \<Rightarrow> Collection \<Rightarrow> (failure + document) \<times> Collection" where
  "restore_todo parse_id str todo_id collection =
     (case parse_id todo_id of
        None \<Rightarrow> (Inl (HTTPException 400 ''Invalid ID format''), collection)
      | Some obj_id \<Rightarrow>
          (case find_one [(''_id'', PyObjectId obj_id)] collection of
             None \<Rightarrow> (Inl (HTTPException 404 ''Todo not found''), collection)
           | Some db_todo \<Rightarrow>
               if \<not> truthy (dict_get db_todo ''deleted'' (PyBool False))
               then (Inl (HTTPException 400 ''Todo is not deleted''), collection)
               else
                (let collection' =
                       update_one [(''_id'', PyObjectId obj_id)]
                         [(''deleted'', PyBool False), (''deleted_at'', PyNone)] collection;
                     restored_todo = find_one [(''_id'', PyObjectId obj_id)] collection'
                 in case format_todo_response str restored_todo of
                      Inl e \<Rightarrow> (Inl (DatabaseError e), collection')
                    | Inr r \<Rightarrow> (Inr r, collection'))))"

section \<open>The service as a state machine\<close>

text \<open>
  The collections the service can bring about: it starts with the empty collection, and
  every request to a writing route, whatever its arguments and whether it succeeds or
  fails, leads from a reachable collection to a reachable one. \<open>delete_todo\<close> covers
  the soft delete and the permanent one.
\<close>

inductive reachable ::
  "(string \<Rightarrow> ObjectId option) \<Rightarrow> (pyval \<Rightarrow> string) \<Rightarrow> Collection \<Rightarrow> bool"
  for parse_id :: "string \<Rightarrow> ObjectId option" and str :: "pyval \<Rightarrow> string" where
  reach_empty: "reachable parse_id str []"
| reach_create:
    "reachable parse_id str c \<Longrightarrow> post_todos str new_id now body c = (r, c')
       \<Longrightarrow> reachable parse_id str c'"
| reach_update:
    "reachable parse_id str c \<Longrightarrow> update_todo parse_id str now todo_id todo c = (r, c')
       \<Longrightarrow> reachable parse_id str c'"
| reach_delete:
    "reachable parse_id str c \<Longrightarrow> delete_todo parse_id str now todo_id permanent c = (r, c')
       \<Longrightarrow> reachable parse_id str c'"
| reach_restore:
    "reachable parse_id str c \<Longrightarrow> restore_todo parse_id str todo_id c = (r, c')
       \<Longrightarrow> reachable parse_id str c'"


text \<open>The fields a \<open>TodoUpdate\<close> carries a value for.\<close>

definition supplies :: "'a field \<Rightarrow> bool" where
  "supplies f = (case f of Val v \<Rightarrow> True | _ \<Rightarrow> False)"

text \<open>The response shape of a stored document: \<open>_id\<close> leaves, \<open>id\<close> holds its string.\<close>

definition response_shape :: "(pyval \<Rightarrow> string) \<Rightarrow> document \<Rightarrow> document" where
  "response_shape str d =
     AList.delete ''_id'' (AList.update ''id'' (PyStr (str (dict_get d ''_id'' PyNone))) d)"

text \<open>The records a list request draws from: all of them when \<open>include_deleted\<close> is
  set, otherwise those whose \<open>deleted\<close> field is \<open>False\<close>.\<close>

definition visible :: "bool \<Rightarrow> document \<Rightarrow> bool" where
  "visible include_deleted d = (include_deleted \<or> map_of d ''deleted'' = Some (PyBool False))"

subsection \<open>An identifier codec for the examples\<close>

text \<open>The examples below run the handlers with this parser and printer, which know
  three identifiers.\<close>

definition example_parse :: "string \<Rightarrow> ObjectId option" where
  "example_parse =
     map_of [(''65f1a2b3c4d5e6f7a8b9c001'', 1), (''65f1a2b3c4d5e6f7a8b9c002'', 2),
             (''65f1a2b3c4d5e6f7a8b9c003'', 3)]"

fun example_str :: "pyval \<Rightarrow> string" where
  "example_str (PyObjectId n) =
     (if n = 1 then ''65f1a2b3c4d5e6f7a8b9c001''
      else if n = 2 then ''65f1a2b3c4d5e6f7a8b9c002''
      else ''65f1a2b3c4d5e6f7a8b9c003'')"
| "example_str v = []"

text \<open>Two stored records: an active one, and the same one after a soft delete at
  time 200.\<close>

definition example_todo :: document where
  "example_todo =
     [(''_id'', PyObjectId 1), (''title'', PyStr ''buy milk''), (''description'', PyNone),
      (''completed'', PyBool False), (''created_at'', PyDatetime 100),
      (''updated_at'', PyDatetime 100), (''deleted'', PyBool False), (''deleted_at'', PyNone)]"

definition example_deleted_todo :: document where
  "example_deleted_todo =
     [(''_id'', PyObjectId 1), (''title'', PyStr ''buy milk''), (''description'', PyNone),
      (''completed'', PyBool False), (''created_at'', PyDatetime 100),
      (''updated_at'', PyDatetime 100), (''deleted'', PyBool True),
      (''deleted_at'', PyDatetime 200)]"

text \<open>A collection of three short records, the third one soft-deleted.\<close>

definition example_collection :: Collection where
  "example_collection =
     [[(''_id'', PyObjectId 1), (''completed'', PyBool False), (''created_at'', PyDatetime 10),
       (''deleted'', PyBool False)],
      [(''_id'', PyObjectId 2), (''completed'', PyBool True), (''created_at'', PyDatetime 30),
       (''deleted'', PyBool False)],
      [(''_id'', PyObjectId 3), (''completed'', PyBool False), (''created_at'', PyDatetime 20),
       (''deleted'', PyBool True)]]"

section \<open>Dictionaries and the store: basic facts\<close>

lemma map_of_set_fields:
  "map_of (set_fields kvs d) k =
     (case map_of (rev kvs) k of Some v \<Rightarrow> Some v | None \<Rightarrow> map_of d k)"
  by (induction kvs d rule: set_fields.induct) (auto simp: update_conv' split: option.splits)

lemma matches_single [simp]: "matches [(k, v)] d = (map_of d k = Some v)"
  by (simp add: matches_def)

lemma matches_empty [simp]: "matches [] d"
  by (simp add: matches_def)

lemma find_one_split:
  "find_one q c = Some d \<Longrightarrow>
     \<exists>pre post. c = pre @ d # post \<and> matches q d \<and> (\<forall>x \<in> set pre. \<not> matches q x)"
  unfolding find_one_def
proof (induction c)
  case Nil
  then show ?case by simp
next
  case (Cons a c)
  show ?case
  proof (cases "matches q a")
    case True
    with Cons.prems have "a = d" by simp
    with True show ?thesis by (intro exI[of _ "[]"] exI[of _ c]) simp
  next
    case False
    with Cons.prems have "List.find (matches q) c = Some d" by simp
    from Cons.IH[OF this] obtain pre post where
      "c = pre @ d # post" "matches q d" "\<forall>x \<in> set pre. \<not> matches q x" by blast
    with False show ?thesis by (intro exI[of _ "a # pre"] exI[of _ post]) simp
  qed
qed

lemma find_one_first:
  "matches q d \<Longrightarrow> \<forall>x \<in> set pre. \<not> matches q x \<Longrightarrow> find_one q (pre @ d # post) = Some d"
  unfolding find_one_def by (induction pre) auto

lemma find_one_None: "find_one q c = None \<longleftrightarrow> (\<forall>x \<in> set c. \<not> matches q x)"
  unfolding find_one_def by (auto simp: find_None_iff)

lemma update_one_first:
  "matches q d \<Longrightarrow> \<forall>x \<in> set pre. \<not> matches q x \<Longrightarrow>
     update_one q kvs (pre @ d # post) = pre @ set_fields kvs d # post"
  by (induction pre) auto

lemma delete_one_first:
  "matches q d \<Longrightarrow> \<forall>x \<in> set pre. \<not> matches q x \<Longrightarrow>
     delete_one q (pre @ d # post) = pre @ post"
  by (induction pre) auto



lemma format_found:
  "map_of d ''_id'' = Some i \<Longrightarrow>
     format_todo_response str (Some d) = Inr (response_shape str d)"
  by (auto simp: format_todo_response_def response_shape_def dict_get_def)

lemma map_of_response_shape:
  "k \<noteq> ''_id'' \<Longrightarrow> k \<noteq> ''id'' \<Longrightarrow> map_of (response_shape str d) k = map_of d k"
  by (simp add: response_shape_def delete_conv' update_conv')

text \<open>The equations that evaluate a handler on a concrete request.\<close>

lemmas handler_defs =
  post_todos_def create_todo_def create_todo_document_def insert_one_def
  TodoCreate_model_dump_def TodoCreate_validate_def format_todo_response_def find_one_def
  dict_get_def delete_todo_def update_todo_def restore_todo_def read_todo_def
  example_parse_def TodoUpdate_model_dump_exclude_unset_def example_todo_def
  example_deleted_todo_def response_shape_def

section \<open>The soft-delete invariant\<close>

lemma update_data_keys:
  "k \<notin> {''title'', ''description'', ''completed'', ''updated_at''} \<Longrightarrow>
   map_of (rev (AList.update ''updated_at'' (PyDatetime now)
      (filter (\<lambda>(k, v). v \<noteq> PyNone) (TodoUpdate_model_dump_exclude_unset todo)))) k = None"
  by (cases "upd_title todo"; cases "upd_description todo"; cases "upd_completed todo")
     (simp_all add: TodoUpdate_model_dump_exclude_unset_def)










section \<open>Delete, update and restore on existing records\<close>

text \<open>The soft delete, for a record the store holds: what it returns and what it
  writes. \<open>pre\<close> holds the documents stored before the record.\<close>

lemma delete_todo_soft:
  assumes "parse_id todo_id = Some oid"
    and "find_one [(''_id'', PyObjectId oid)] c = Some d"
  shows "\<exists>pre post. c = pre @ d # post \<and>
           (\<forall>x \<in> set pre. map_of x ''_id'' \<noteq> Some (PyObjectId oid)) \<and>
           delete_todo parse_id str now todo_id False c =
             (Inr (response_shape str d),
              pre @ set_fields [(''deleted'', PyBool True), (''deleted_at'', PyDatetime now)] d # post)"
proof -
  from find_one_split[OF assms(2)] obtain pre post where
    c: "c = pre @ d # post" and m: "matches [(''_id'', PyObjectId oid)] d"
    and n: "\<forall>x \<in> set pre. \<not> matches [(''_id'', PyObjectId oid)] x" by blast
  from m have i: "map_of d ''_id'' = Some (PyObjectId oid)" by simp
  have "delete_todo parse_id str now todo_id False c =
      (Inr (response_shape str d),
       pre @ set_fields [(''deleted'', PyBool True), (''deleted_at'', PyDatetime now)] d # post)"
    using assms update_one_first[OF m n] format_found[OF i]
    by (simp add: delete_todo_def c del: set_fields.simps)
  with c n show ?thesis by auto
qed

text \<open>
  C2. For a record the store holds, \<open>delete_todo\<close> with \<open>permanent = False\<close> sets
  \<open>deleted\<close> to \<open>True\<close> and \<open>deleted_at\<close> to the current time, leaves every other
  field of the record (\<open>updated_at\<close> among them) and every other record as they were,
  and returns the response shape of the record as it was before the write: the returned
  \<open>deleted\<close> and \<open>deleted_at\<close> are the old values.
\<close>

theorem soft_delete_returns_pre_delete_view:
  assumes "parse_id todo_id = Some oid"
    and "find_one [(''_id'', PyObjectId oid)] c = Some d"
  shows "\<exists>pre post d'. c = pre @ d # post \<and>
           (\<forall>x \<in> set pre. map_of x ''_id'' \<noteq> Some (PyObjectId oid)) \<and>
           delete_todo parse_id str now todo_id False c =
             (Inr (response_shape str d), pre @ d' # post) \<and>
           map_of d' ''deleted'' = Some (PyBool True) \<and>
           map_of d' ''deleted_at'' = Some (PyDatetime now) \<and>
           (\<forall>k. k \<noteq> ''deleted'' \<and> k \<noteq> ''deleted_at'' \<longrightarrow> map_of d' k = map_of d k) \<and>
           format_todo_response str (Some d) = Inr (response_shape str d) \<and>
           (\<forall>k. k \<noteq> ''_id'' \<and> k \<noteq> ''id'' \<longrightarrow> map_of (response_shape str d) k = map_of d k)"
proof -
  let ?d' = "set_fields [(''deleted'', PyBool True), (''deleted_at'', PyDatetime now)] d"
  from delete_todo_soft[where parse_id=parse_id and todo_id=todo_id and str=str and now=now, OF assms] obtain pre post where
    c: "c = pre @ d # post"
    and n: "\<forall>x \<in> set pre. map_of x ''_id'' \<noteq> Some (PyObjectId oid)"
    and r: "delete_todo parse_id str now todo_id False c = (Inr (response_shape str d), pre @ ?d' # post)"
    by blast
  from find_one_split[OF assms(2)] have i: "map_of d ''_id'' = Some (PyObjectId oid)" by auto
  have f1: "map_of ?d' ''deleted'' = Some (PyBool True)" by (simp add: update_conv')
  have f2: "map_of ?d' ''deleted_at'' = Some (PyDatetime now)" by (simp add: update_conv')
  have f3: "\<forall>k. k \<noteq> ''deleted'' \<and> k \<noteq> ''deleted_at'' \<longrightarrow> map_of ?d' k = map_of d k"
    by (simp add: update_conv')
  have f4: "\<forall>k. k \<noteq> ''_id'' \<and> k \<noteq> ''id'' \<longrightarrow> map_of (response_shape str d) k = map_of d k"
    by (simp add: map_of_response_shape)
  from c n r f1 f2 f3 f4 format_found[OF i] show ?thesis by blast
qed

text \<open>Example: the active example record is soft-deleted at time 200.\<close>

theorem soft_delete_returns_pre_delete_view_witness:
  "example_parse ''65f1a2b3c4d5e6f7a8b9c001'' = Some 1 \<and>
   find_one [(''_id'', PyObjectId 1)] [example_todo] = Some example_todo \<and>
   (\<exists>pre post d'. [example_todo] = pre @ example_todo # post \<and>
      delete_todo example_parse example_str 200 ''65f1a2b3c4d5e6f7a8b9c001'' False [example_todo] =
        (Inr (response_shape example_str example_todo), pre @ d' # post) \<and>
      map_of d' ''deleted'' = Some (PyBool True) \<and>
      map_of d' ''deleted_at'' = Some (PyDatetime 200) \<and>
      map_of d' ''updated_at'' = map_of example_todo ''updated_at'' \<and>
      map_of (response_shape example_str example_todo) ''deleted'' =
        map_of example_todo ''deleted'' \<and>
      map_of (response_shape example_str example_todo) ''deleted_at'' =
        map_of example_todo ''deleted_at'') \<and>
   map_of example_todo ''deleted'' = Some (PyBool False) \<and>
   map_of example_todo ''deleted_at'' = Some PyNone"
proof -
  have h1: "example_parse ''65f1a2b3c4d5e6f7a8b9c001'' = Some 1"
    by (simp add: example_parse_def)
  have h2: "find_one [(''_id'', PyObjectId 1)] [example_todo] = Some example_todo"
    by (simp add: find_one_def example_todo_def)
  have h3: "map_of example_todo ''deleted'' = Some (PyBool False)"
    by (simp add: example_todo_def)
  have h4: "map_of example_todo ''deleted_at'' = Some PyNone"
    by (simp add: example_todo_def)
  from soft_delete_returns_pre_delete_view
         [where parse_id = example_parse and str = example_str and now = 200, OF h1 h2]
  obtain pre post d' where
    c: "[example_todo] = pre @ example_todo # post"
    and r: "delete_todo example_parse example_str 200 ''65f1a2b3c4d5e6f7a8b9c001'' False
              [example_todo] = (Inr (response_shape example_str example_todo), pre @ d' # post)"
    and d1: "map_of d' ''deleted'' = Some (PyBool True)"
    and d2: "map_of d' ''deleted_at'' = Some (PyDatetime 200)"
    and u: "\<forall>k. k \<noteq> ''deleted'' \<and> k \<noteq> ''deleted_at'' \<longrightarrow> map_of d' k = map_of example_todo k"
    and v: "\<forall>k. k \<noteq> ''_id'' \<and> k \<noteq> ''id'' \<longrightarrow>
              map_of (response_shape example_str example_todo) k = map_of example_todo k"
    by (elim exE conjE)
  from u have u1: "map_of d' ''updated_at'' = map_of example_todo ''updated_at''"
    by simp
  from v have v1: "map_of (response_shape example_str example_todo) ''deleted'' =
      map_of example_todo ''deleted''"
    by simp
  from v have v2: "map_of (response_shape example_str example_todo) ''deleted_at'' =
      map_of example_todo ''deleted_at''"
    by simp
  from c r d1 d2 u1 v1 v2 have
    "\<exists>pre post d'. [example_todo] = pre @ example_todo # post \<and>
      delete_todo example_parse example_str 200 ''65f1a2b3c4d5e6f7a8b9c001'' False [example_todo] =
        (Inr (response_shape example_str example_todo), pre @ d' # post) \<and>
      map_of d' ''deleted'' = Some (PyBool True) \<and>
      map_of d' ''deleted_at'' = Some (PyDatetime 200) \<and>
      map_of d' ''updated_at'' = map_of example_todo ''updated_at'' \<and>
      map_of (response_shape example_str example_todo) ''deleted'' =
        map_of example_todo ''deleted'' \<and>
      map_of (response_shape example_str example_todo) ''deleted_at'' =
        map_of example_todo ''deleted_at''"
    by (intro exI conjI)
  with h1 h2 h3 h4 show ?thesis by (intro conjI)
qed

text \<open>
  C10. The soft delete has no check of the record's state: for a record that is already
  deleted it succeeds, writes the current time over \<open>deleted_at\<close>, and returns the view
  from before the write, in which \<open>deleted\<close> is true.
\<close>

theorem soft_delete_of_deleted_record:
  assumes "parse_id todo_id = Some oid"
    and "find_one [(''_id'', PyObjectId oid)] c = Some d"
    and "truthy (dict_get d ''deleted'' (PyBool False))"
  shows "\<exists>pre post d' r. c = pre @ d # post \<and>
           delete_todo parse_id str now todo_id False c = (Inr r, pre @ d' # post) \<and>
           truthy (dict_get r ''deleted'' (PyBool False)) \<and>
           map_of r ''deleted'' = map_of d ''deleted'' \<and>
           map_of r ''deleted_at'' = map_of d ''deleted_at'' \<and>
           map_of d' ''deleted'' = Some (PyBool True) \<and>
           map_of d' ''deleted_at'' = Some (PyDatetime now)"
proof -
  let ?d' = "set_fields [(''deleted'', PyBool True), (''deleted_at'', PyDatetime now)] d"
  from delete_todo_soft[where parse_id=parse_id and todo_id=todo_id and str=str and now=now, OF assms(1,2)] obtain pre post where
    c: "c = pre @ d # post"
    and r: "delete_todo parse_id str now todo_id False c = (Inr (response_shape str d), pre @ ?d' # post)"
    by blast
  have f1: "map_of ?d' ''deleted'' = Some (PyBool True)" by (simp add: update_conv')
  have f2: "map_of ?d' ''deleted_at'' = Some (PyDatetime now)" by (simp add: update_conv')
  have g1: "map_of (response_shape str d) ''deleted'' = map_of d ''deleted''"
    by (simp add: map_of_response_shape)
  have g2: "map_of (response_shape str d) ''deleted_at'' = map_of d ''deleted_at''"
    by (simp add: map_of_response_shape)
  from g1 assms(3) have g3: "truthy (dict_get (response_shape str d) ''deleted'' (PyBool False))"
    by (simp add: dict_get_def)
  from c r f1 f2 g1 g2 g3 show ?thesis by blast
qed

text \<open>Example: the deleted example record is soft-deleted again at time 300.\<close>

theorem soft_delete_of_deleted_record_witness:
  "example_parse ''65f1a2b3c4d5e6f7a8b9c001'' = Some 1 \<and>
   find_one [(''_id'', PyObjectId 1)] [example_deleted_todo] = Some example_deleted_todo \<and>
   truthy (dict_get example_deleted_todo ''deleted'' (PyBool False)) \<and>
   (\<exists>pre post d' r. [example_deleted_todo] = pre @ example_deleted_todo # post \<and>
      delete_todo example_parse example_str 300 ''65f1a2b3c4d5e6f7a8b9c001'' False
        [example_deleted_todo] = (Inr r, pre @ d' # post) \<and>
      truthy (dict_get r ''deleted'' (PyBool False)) \<and>
      map_of r ''deleted'' = map_of example_deleted_todo ''deleted'' \<and>
      map_of r ''deleted_at'' = map_of example_deleted_todo ''deleted_at'' \<and>
      map_of d' ''deleted'' = Some (PyBool True) \<and>
      map_of d' ''deleted_at'' = Some (PyDatetime 300))"
proof -
  have h1: "example_parse ''65f1a2b3c4d5e6f7a8b9c001'' = Some 1"
    by (simp add: example_parse_def)
  have h2: "find_one [(''_id'', PyObjectId 1)] [example_deleted_todo] = Some example_deleted_todo"
    by (simp add: find_one_def example_deleted_todo_def)
  have h3: "truthy (dict_get example_deleted_todo ''deleted'' (PyBool False))"
    by (simp add: dict_get_def example_deleted_todo_def)
  from soft_delete_of_deleted_record
         [where parse_id = example_parse and str = example_str and now = 300, OF h1 h2 h3]
    h1 h2 h3
  show ?thesis by blast
qed

text \<open>
  C4. For a record the store holds, \<open>update_todo\<close> fails with status 400 and the detail
  "Cannot update deleted todo" when the record's \<open>deleted\<close> flag is true, and
  \<open>restore_todo\<close> fails with status 400 and the detail "Todo is not deleted" when it is
  not; in both cases the collection is returned as it was.
\<close>

theorem state_errors_before_any_write:
  "(parse_id todo_id = Some oid \<and> find_one [(''_id'', PyObjectId oid)] c = Some d \<and>
      truthy (dict_get d ''deleted'' (PyBool False))
      \<longrightarrow> update_todo parse_id str now todo_id todo c =
            (Inl (HTTPException 400 ''Cannot update deleted todo''), c)) \<and>
   (parse_id todo_id = Some oid \<and> find_one [(''_id'', PyObjectId oid)] c = Some d \<and>
      \<not> truthy (dict_get d ''deleted'' (PyBool False))
      \<longrightarrow> restore_todo parse_id str todo_id c =
            (Inl (HTTPException 400 ''Todo is not deleted''), c))"
  by (simp add: update_todo_def restore_todo_def)

text \<open>Example: an update of the deleted example record and a restore of the active one.\<close>

theorem state_errors_before_any_write_witness:
  "example_parse ''65f1a2b3c4d5e6f7a8b9c001'' = Some 1 \<and>
   find_one [(''_id'', PyObjectId 1)] [example_deleted_todo] = Some example_deleted_todo \<and>
   truthy (dict_get example_deleted_todo ''deleted'' (PyBool False)) \<and>
   update_todo example_parse example_str 300 ''65f1a2b3c4d5e6f7a8b9c001''
       \<lparr>upd_title = Val ''buy bread'', upd_description = Absent, upd_completed = Absent\<rparr>
       [example_deleted_todo] =
     (Inl (HTTPException 400 ''Cannot update deleted todo''), [example_deleted_todo]) \<and>
   find_one [(''_id'', PyObjectId 1)] [example_todo] = Some example_todo \<and>
   \<not> truthy (dict_get example_todo ''deleted'' (PyBool False)) \<and>
   restore_todo example_parse example_str ''65f1a2b3c4d5e6f7a8b9c001'' [example_todo] =
     (Inl (HTTPException 400 ''Todo is not deleted''), [example_todo])"
proof -
  have h1: "example_parse ''65f1a2b3c4d5e6f7a8b9c001'' = Some 1"
    by (simp add: example_parse_def)
  have h2: "find_one [(''_id'', PyObjectId 1)] [example_deleted_todo] = Some example_deleted_todo"
    by (simp add: find_one_def example_deleted_todo_def)
  have h3: "truthy (dict_get example_deleted_todo ''deleted'' (PyBool False))"
    by (simp add: dict_get_def example_deleted_todo_def)
  have h4: "find_one [(''_id'', PyObjectId 1)] [example_todo] = Some example_todo"
    by (simp add: find_one_def example_todo_def)
  have h5: "\<not> truthy (dict_get example_todo ''deleted'' (PyBool False))"
    by (simp add: dict_get_def example_todo_def)
  from state_errors_before_any_write
         [where parse_id = example_parse and todo_id = "''65f1a2b3c4d5e6f7a8b9c001''"
            and oid = 1 and c = "[example_deleted_todo]" and d = example_deleted_todo
            and str = example_str and now = 300
            and todo = "\<lparr>upd_title = Val ''buy bread'', upd_description = Absent,
                         upd_completed = Absent\<rparr>"]
    h1 h2 h3
  have a: "update_todo example_parse example_str 300 ''65f1a2b3c4d5e6f7a8b9c001''
       \<lparr>upd_title = Val ''buy bread'', upd_description = Absent, upd_completed = Absent\<rparr>
       [example_deleted_todo] =
     (Inl (HTTPException 400 ''Cannot update deleted todo''), [example_deleted_todo])"
    by blast
  from state_errors_before_any_write
         [where parse_id = example_parse and todo_id = "''65f1a2b3c4d5e6f7a8b9c001''"
            and oid = 1 and c = "[example_todo]" and d = example_todo and str = example_str]
    h1 h4 h5
  have b: "restore_todo example_parse example_str ''65f1a2b3c4d5e6f7a8b9c001'' [example_todo] =
     (Inl (HTTPException 400 ''Todo is not deleted''), [example_todo])"
    by blast
  from h1 h2 h3 h4 h5 a b show ?thesis by blast
qed

section \<open>Updating a record\<close>

text \<open>The \<open>$set\<close> document of an update: what it holds for each field, and when it is
  empty.\<close>

lemma update_data_lookup:
  "map_of (rev (AList.update ''updated_at'' (PyDatetime now)
      (filter (\<lambda>(k, v). v \<noteq> PyNone) (TodoUpdate_model_dump_exclude_unset todo)))) ''title'' =
     (case upd_title todo of Val s \<Rightarrow> Some (PyStr s) | _ \<Rightarrow> None)"
  "map_of (rev (AList.update ''updated_at'' (PyDatetime now)
      (filter (\<lambda>(k, v). v \<noteq> PyNone) (TodoUpdate_model_dump_exclude_unset todo)))) ''description'' =
     (case upd_description todo of Val s \<Rightarrow> Some (PyStr s) | _ \<Rightarrow> None)"
  "map_of (rev (AList.update ''updated_at'' (PyDatetime now)
      (filter (\<lambda>(k, v). v \<noteq> PyNone) (TodoUpdate_model_dump_exclude_unset todo)))) ''completed'' =
     (case upd_completed todo of Val b \<Rightarrow> Some (PyBool b) | _ \<Rightarrow> None)"
  "map_of (rev (AList.update ''updated_at'' (PyDatetime now)
      (filter (\<lambda>(k, v). v \<noteq> PyNone) (TodoUpdate_model_dump_exclude_unset todo)))) ''updated_at'' = Some (PyDatetime now)"
  by (cases "upd_title todo"; cases "upd_description todo"; cases "upd_completed todo";
      simp add: TodoUpdate_model_dump_exclude_unset_def)+

lemma update_data_empty:
  "(filter (\<lambda>(k, v). v \<noteq> PyNone) (TodoUpdate_model_dump_exclude_unset todo) = []) =
     (\<not> (supplies (upd_title todo) \<or> supplies (upd_description todo) \<or>
          supplies (upd_completed todo)))"
  by (cases "upd_title todo"; cases "upd_description todo"; cases "upd_completed todo")
     (simp_all add: TodoUpdate_model_dump_exclude_unset_def supplies_def)

text \<open>
  C3. For a record the store holds and that is not deleted, \<open>update_todo\<close> writes exactly
  the fields among \<open>title\<close>, \<open>description\<close> and \<open>completed\<close> that the request supplies
  with a value other than null, sets \<open>updated_at\<close> to the current time if and only if
  there is such a field, and leaves every other field and every other record as they
  were; an absent field and a null field are both left alone, and a request without any
  such field succeeds and returns the record unchanged.
\<close>

theorem update_todo_sparse:
  assumes "parse_id todo_id = Some oid"
    and "find_one [(''_id'', PyObjectId oid)] c = Some d"
    and "\<not> truthy (dict_get d ''deleted'' (PyBool False))"
  shows "\<exists>pre post d'. c = pre @ d # post \<and>
      (\<forall>x \<in> set pre. map_of x ''_id'' \<noteq> Some (PyObjectId oid)) \<and>
      update_todo parse_id str now todo_id todo c = (Inr (response_shape str d'), pre @ d' # post) \<and>
      map_of d' ''title'' =
        (case upd_title todo of Val s \<Rightarrow> Some (PyStr s) | _ \<Rightarrow> map_of d ''title'') \<and>
      map_of d' ''description'' =
        (case upd_description todo of Val s \<Rightarrow> Some (PyStr s)
           | _ \<Rightarrow> map_of d ''description'') \<and>
      map_of d' ''completed'' =
        (case upd_completed todo of Val b \<Rightarrow> Some (PyBool b) | _ \<Rightarrow> map_of d ''completed'') \<and>
      map_of d' ''updated_at'' =
        (if supplies (upd_title todo) \<or> supplies (upd_description todo) \<or>
            supplies (upd_completed todo)
         then Some (PyDatetime now) else map_of d ''updated_at'') \<and>
      (\<forall>k. k \<notin> {''title'', ''description'', ''completed'', ''updated_at''}
         \<longrightarrow> map_of d' k = map_of d k) \<and>
      (\<not> (supplies (upd_title todo) \<or> supplies (upd_description todo) \<or>
           supplies (upd_completed todo)) \<longrightarrow> d' = d)"
proof -
  let ?q = "[(''_id'', PyObjectId oid)]"
  let ?data = "filter (\<lambda>(k, v). v \<noteq> PyNone) (TodoUpdate_model_dump_exclude_unset todo)"
  let ?kvs = "AList.update ''updated_at'' (PyDatetime now) ?data"
  let ?any = "supplies (upd_title todo) \<or> supplies (upd_description todo) \<or>
      supplies (upd_completed todo)"
  let ?d' = "if ?any then set_fields ?kvs d else d"
  from find_one_split[OF assms(2)] obtain pre post where
    c: "c = pre @ d # post" and m: "matches ?q d"
    and n: "\<forall>x \<in> set pre. \<not> matches ?q x" by blast
  from n have n': "\<forall>x \<in> set pre. map_of x ''_id'' \<noteq> Some (PyObjectId oid)" by simp
  have frame: "map_of (set_fields ?kvs d) k = map_of d k"
    if "k \<notin> {''title'', ''description'', ''completed'', ''updated_at''}" for k
    using update_data_keys[OF that, of now todo] by (simp add: map_of_set_fields)
  have other: "\<forall>k. k \<notin> {''title'', ''description'', ''completed'', ''updated_at''}
      \<longrightarrow> map_of ?d' k = map_of d k"
    using frame by simp
  from m have "map_of d ''_id'' = Some (PyObjectId oid)" by simp
  with other have i: "map_of ?d' ''_id'' = Some (PyObjectId oid)" by simp
  then have m': "matches ?q ?d'" by simp
  have coll: "(if ?data \<noteq> [] then update_one ?q ?kvs c else c) = pre @ ?d' # post"
    using update_one_first[OF m n, of ?kvs post] by (simp add: update_data_empty c)
  have res: "update_todo parse_id str now todo_id todo c =
      (Inr (response_shape str ?d'), pre @ ?d' # post)"
    using assms find_one_first[OF m' n, of post] format_found[OF i, of str]
    by (simp add: update_todo_def Let_def coll del: set_fields.simps)
  have t: "map_of ?d' ''title'' =
      (case upd_title todo of Val s \<Rightarrow> Some (PyStr s) | _ \<Rightarrow> map_of d ''title'')"
    by (simp add: map_of_set_fields update_data_lookup supplies_def split: field.splits)
  have ds: "map_of ?d' ''description'' =
      (case upd_description todo of Val s \<Rightarrow> Some (PyStr s) | _ \<Rightarrow> map_of d ''description'')"
    by (simp add: map_of_set_fields update_data_lookup supplies_def split: field.splits)
  have cp: "map_of ?d' ''completed'' =
      (case upd_completed todo of Val b \<Rightarrow> Some (PyBool b) | _ \<Rightarrow> map_of d ''completed'')"
    by (simp add: map_of_set_fields update_data_lookup supplies_def split: field.splits)
  have ua: "map_of ?d' ''updated_at'' =
      (if ?any then Some (PyDatetime now) else map_of d ''updated_at'')"
    by (simp add: map_of_set_fields update_data_lookup)
  have same: "\<not> ?any \<longrightarrow> ?d' = d" by simp
  from c n' res t ds cp ua other same show ?thesis
    by (intro exI[of _ pre] exI[of _ post] exI[of _ ?d'] conjI)
qed

text \<open>Example: a request with a null title and \<open>completed = true\<close> at time 300.\<close>

theorem update_todo_sparse_witness:
  "example_parse ''65f1a2b3c4d5e6f7a8b9c001'' = Some 1 \<and>
   find_one [(''_id'', PyObjectId 1)] [example_todo] = Some example_todo \<and>
   \<not> truthy (dict_get example_todo ''deleted'' (PyBool False)) \<and>
   (\<exists>pre post d'. [example_todo] = pre @ example_todo # post \<and>
      update_todo example_parse example_str 300 ''65f1a2b3c4d5e6f7a8b9c001''
          \<lparr>upd_title = Null, upd_description = Absent, upd_completed = Val True\<rparr>
          [example_todo] =
        (Inr (response_shape example_str d'), pre @ d' # post) \<and>
      map_of d' ''title'' = map_of example_todo ''title'' \<and>
      map_of d' ''description'' = map_of example_todo ''description'' \<and>
      map_of d' ''completed'' = Some (PyBool True) \<and>
      map_of d' ''updated_at'' = Some (PyDatetime 300) \<and>
      map_of d' ''deleted'' = map_of example_todo ''deleted'')"
proof -
  let ?todo = "\<lparr>upd_title = Null, upd_description = Absent, upd_completed = Val True\<rparr>"
  have h1: "example_parse ''65f1a2b3c4d5e6f7a8b9c001'' = Some 1"
    by (simp add: example_parse_def)
  have h2: "find_one [(''_id'', PyObjectId 1)] [example_todo] = Some example_todo"
    by (simp add: find_one_def example_todo_def)
  have h3: "\<not> truthy (dict_get example_todo ''deleted'' (PyBool False))"
    by (simp add: dict_get_def example_todo_def)
  from update_todo_sparse
         [where parse_id = example_parse and str = example_str and now = 300 and todo = ?todo,
          OF h1 h2 h3]
  obtain pre post d' where
    c: "[example_todo] = pre @ example_todo # post"
    and r: "update_todo example_parse example_str 300 ''65f1a2b3c4d5e6f7a8b9c001'' ?todo
              [example_todo] = (Inr (response_shape example_str d'), pre @ d' # post)"
    and t: "map_of d' ''title'' =
        (case upd_title ?todo of Val s \<Rightarrow> Some (PyStr s) | _ \<Rightarrow> map_of example_todo ''title'')"
    and ds: "map_of d' ''description'' =
        (case upd_description ?todo of Val s \<Rightarrow> Some (PyStr s)
           | _ \<Rightarrow> map_of example_todo ''description'')"
    and cp: "map_of d' ''completed'' =
        (case upd_completed ?todo of Val b \<Rightarrow> Some (PyBool b)
           | _ \<Rightarrow> map_of example_todo ''completed'')"
    and ua: "map_of d' ''updated_at'' =
        (if supplies (upd_title ?todo) \<or> supplies (upd_description ?todo) \<or>
            supplies (upd_completed ?todo)
         then Some (PyDatetime 300) else map_of example_todo ''updated_at'')"
    and other: "\<forall>k. k \<notin> {''title'', ''description'', ''completed'', ''updated_at''}
         \<longrightarrow> map_of d' k = map_of example_todo k"
    by (elim exE conjE)
  from t have t': "map_of d' ''title'' = map_of example_todo ''title''" by simp
  from ds have ds': "map_of d' ''description'' = map_of example_todo ''description''" by simp
  from cp have cp': "map_of d' ''completed'' = Some (PyBool True)" by simp
  from ua have ua': "map_of d' ''updated_at'' = Some (PyDatetime 300)"
    by (simp add: supplies_def)
  from other have o': "map_of d' ''deleted'' = map_of example_todo ''deleted''" by simp
  from c r t' ds' cp' ua' o' have
    "\<exists>pre post d'. [example_todo] = pre @ example_todo # post \<and>
      update_todo example_parse example_str 300 ''65f1a2b3c4d5e6f7a8b9c001'' ?todo
          [example_todo] =
        (Inr (response_shape example_str d'), pre @ d' # post) \<and>
      map_of d' ''title'' = map_of example_todo ''title'' \<and>
      map_of d' ''description'' = map_of example_todo ''description'' \<and>
      map_of d' ''completed'' = Some (PyBool True) \<and>
      map_of d' ''updated_at'' = Some (PyDatetime 300) \<and>
      map_of d' ''deleted'' = map_of example_todo ''deleted''"
    by (intro exI conjI)
  with h1 h2 h3 show ?thesis by (intro conjI)
qed

section \<open>Reading one record\<close>

text \<open>
  C6. \<open>read_todo\<close> fails with status 400 when the identifier does not parse, with status
  404 when no record has the identifier ("Todo not found") and when the record's
  \<open>deleted\<close> flag is true ("Todo was deleted"), and otherwise returns the response shape
  of the record.
\<close>

theorem read_todo_cases:
  "(parse_id todo_id = None
      \<longrightarrow> read_todo parse_id str todo_id c = Inl (HTTPException 400 ''Invalid ID format'')) \<and>
   (parse_id todo_id = Some oid \<and> find_one [(''_id'', PyObjectId oid)] c = None
      \<longrightarrow> read_todo parse_id str todo_id c = Inl (HTTPException 404 ''Todo not found'')) \<and>
   (parse_id todo_id = Some oid \<and> find_one [(''_id'', PyObjectId oid)] c = Some d \<and>
      truthy (dict_get d ''deleted'' (PyBool False))
      \<longrightarrow> read_todo parse_id str todo_id c = Inl (HTTPException 404 ''Todo was deleted'')) \<and>
   (parse_id todo_id = Some oid \<and> find_one [(''_id'', PyObjectId oid)] c = Some d \<and>
      \<not> truthy (dict_get d ''deleted'' (PyBool False))
      \<longrightarrow> read_todo parse_id str todo_id c = Inr (response_shape str d) \<and>
          format_todo_response str (Some d) = Inr (response_shape str d))"
proof -
  have "map_of d ''_id'' = Some (PyObjectId oid)"
    if "find_one [(''_id'', PyObjectId oid)] c = Some d"
    using find_one_split[OF that] by auto
  then show ?thesis
    by (auto simp: read_todo_def format_found)
qed

text \<open>Example: one request for each of the four outcomes.\<close>

theorem read_todo_cases_witness:
  "read_todo example_parse example_str ''not-an-id'' [example_todo] =
     Inl (HTTPException 400 ''Invalid ID format'') \<and>
   read_todo example_parse example_str ''65f1a2b3c4d5e6f7a8b9c002'' [example_todo] =
     Inl (HTTPException 404 ''Todo not found'') \<and>
   read_todo example_parse example_str ''65f1a2b3c4d5e6f7a8b9c001'' [example_deleted_todo] =
     Inl (HTTPException 404 ''Todo was deleted'') \<and>
   read_todo example_parse example_str ''65f1a2b3c4d5e6f7a8b9c001'' [example_todo] =
     Inr (response_shape example_str example_todo)"
proof -
  have p0: "example_parse ''not-an-id'' = None" by (simp add: example_parse_def)
  have p1: "example_parse ''65f1a2b3c4d5e6f7a8b9c001'' = Some 1" by (simp add: example_parse_def)
  have p2: "example_parse ''65f1a2b3c4d5e6f7a8b9c002'' = Some 2" by (simp add: example_parse_def)
  have f2: "find_one [(''_id'', PyObjectId 2)] [example_todo] = None"
    by (simp add: find_one_def example_todo_def)
  have fd: "find_one [(''_id'', PyObjectId 1)] [example_deleted_todo] = Some example_deleted_todo"
    by (simp add: find_one_def example_deleted_todo_def)
  have td: "truthy (dict_get example_deleted_todo ''deleted'' (PyBool False))"
    by (simp add: dict_get_def example_deleted_todo_def)
  have fa: "find_one [(''_id'', PyObjectId 1)] [example_todo] = Some example_todo"
    by (simp add: find_one_def example_todo_def)
  have ta: "\<not> truthy (dict_get example_todo ''deleted'' (PyBool False))"
    by (simp add: dict_get_def example_todo_def)
  have a: "read_todo example_parse example_str ''not-an-id'' [example_todo] =
             Inl (HTTPException 400 ''Invalid ID format'')"
    using read_todo_cases[where parse_id = example_parse and todo_id = "''not-an-id''"
        and str = example_str and c = "[example_todo]"] p0 by blast
  have b: "read_todo example_parse example_str ''65f1a2b3c4d5e6f7a8b9c002'' [example_todo] =
             Inl (HTTPException 404 ''Todo not found'')"
    using read_todo_cases[where parse_id = example_parse
        and todo_id = "''65f1a2b3c4d5e6f7a8b9c002''" and oid = 2
        and str = example_str and c = "[example_todo]"] p2 f2 by blast
  have c: "read_todo example_parse example_str ''65f1a2b3c4d5e6f7a8b9c001'' [example_deleted_todo] =
             Inl (HTTPException 404 ''Todo was deleted'')"
    using read_todo_cases[where parse_id = example_parse
        and todo_id = "''65f1a2b3c4d5e6f7a8b9c001''" and oid = 1 and d = example_deleted_todo
        and str = example_str and c = "[example_deleted_todo]"] p1 fd td by blast
  have d: "read_todo example_parse example_str ''65f1a2b3c4d5e6f7a8b9c001'' [example_todo] =
             Inr (response_shape example_str example_todo)"
    using read_todo_cases[where parse_id = example_parse
        and todo_id = "''65f1a2b3c4d5e6f7a8b9c001''" and oid = 1 and d = example_todo
        and str = example_str and c = "[example_todo]"] p1 fa ta by blast
  from a b c d show ?thesis by blast
qed

section \<open>Listing records\<close>

text \<open>The page count \<open>(total + size - 1) // size\<close> is the ceiling of the quotient.\<close>

lemma ceil_div:
  assumes "0 < p"
  shows "((t::int) + p - 1) div p = \<lceil>real_of_int t / real_of_int p\<rceil>"
proof -
  let ?z = "(t + p - 1) div p"
  have m: "?z * p = (t + p - 1) - (t + p - 1) mod p"
    by (simp add: minus_mod_eq_div_mult)
  from assms have "0 \<le> (t + p - 1) mod p" and "(t + p - 1) mod p < p"
    by simp_all
  with m have lo: "t \<le> ?z * p" and hi: "?z * p < t + p" by linarith+
  from assms have rp: "0 < real_of_int p" by simp
  from lo have "real_of_int t \<le> real_of_int (?z * p)" by linarith
  then have a: "real_of_int t / real_of_int p \<le> real_of_int ?z"
    using rp by (simp add: pos_divide_le_eq)
  from hi have "real_of_int (?z * p) < real_of_int (t + p)" by linarith
  then have "(real_of_int ?z - 1) * real_of_int p < real_of_int t"
    by (simp add: algebra_simps)
  then have b: "real_of_int ?z - 1 < real_of_int t / real_of_int p"
    using rp by (simp add: pos_less_divide_eq)
  from ceiling_unique[OF b a] show ?thesis by simp
qed

lemma matches_query_filter:
  "matches (if include_deleted then [] else [(''deleted'', PyBool False)]) =
     visible include_deleted"
  by (rule ext) (simp add: visible_def)

lemma count_visible:
  "count_documents (if include_deleted then [] else [(''deleted'', PyBool False)]) c =
     int (length (filter (visible include_deleted) c))"
  unfolding count_documents_def matches_query_filter by (rule refl)


text \<open>
  C7. A list request whose \<open>skip = (page_number - 1) * items_per_page\<close> is at least the
  number of records that pass the filter returns the envelope with an empty \<open>data\<close>,
  \<open>current_page\<close> the requested page, \<open>total_items\<close> the number of records that pass the
  filter and \<open>total_pages\<close> the ceiling of \<open>total_items / items_per_page\<close>, which the code
  computes as \<open>(total_items + items_per_page - 1) // items_per_page\<close>.
\<close>

theorem read_todos_beyond_last_page:
  assumes "0 < items_per_page" and "0 < page_number"
    and "int (length (filter (visible include_deleted) c)) \<le> (page_number - 1) * items_per_page"
  shows "read_todos str include_deleted sort_by items_per_page page_number c =
      Inr \<lparr> p_current_page = page_number,
            p_total_pages =
              \<lceil>real_of_int (int (length (filter (visible include_deleted) c))) /
                 real_of_int items_per_page\<rceil>,
            p_items_per_page = items_per_page,
            p_total_items = int (length (filter (visible include_deleted) c)),
            p_data = [] \<rparr> \<and>
    \<lceil>real_of_int (int (length (filter (visible include_deleted) c))) /
       real_of_int items_per_page\<rceil> =
      (int (length (filter (visible include_deleted) c)) + items_per_page - 1) div items_per_page"
proof -
  let ?n = "int (length (filter (visible include_deleted) c))"
  have cl: "(?n + items_per_page - 1) div items_per_page =
      \<lceil>real_of_int ?n / real_of_int items_per_page\<rceil>"
    by (rule ceil_div[OF assms(1)])
  have "read_todos str include_deleted sort_by items_per_page page_number c =
      Inr \<lparr> p_current_page = page_number,
            p_total_pages = (?n + items_per_page - 1) div items_per_page,
            p_items_per_page = items_per_page, p_total_items = ?n, p_data = [] \<rparr>"
    using assms unfolding read_todos_def count_visible Let_def by simp
  with cl show ?thesis by simp
qed

text \<open>Example: page 2 of size 2 over the two active records of the example collection.\<close>

theorem read_todos_beyond_last_page_witness:
  "(0::int) < 2 \<and>
   int (length (filter (visible False) example_collection)) \<le> (2 - 1) * 2 \<and>
   read_todos example_str False None 2 2 example_collection =
     Inr \<lparr> p_current_page = 2, p_total_pages = 1, p_items_per_page = 2, p_total_items = 2,
           p_data = [] \<rparr>"
proof -
  have n: "int (length (filter (visible False) example_collection)) = 2"
    by (simp add: visible_def example_collection_def)
  have h1: "(0::int) < 2" by simp
  have h3: "int (length (filter (visible False) example_collection)) \<le> (2 - 1) * 2"
    unfolding n by simp
  from read_todos_beyond_last_page[where str = example_str and sort_by = None, OF h1 h1 h3]
  have "read_todos example_str False None 2 2 example_collection =
     Inr \<lparr> p_current_page = 2, p_total_pages = 1, p_items_per_page = 2, p_total_items = 2,
           p_data = [] \<rparr>"
    unfolding n by simp
  with h1 h3 show ?thesis by (intro conjI)
qed






section \<open>Creating a record\<close>

text \<open>A validated request with an unused identifier stores the new record after the
  others and returns its response shape.\<close>

lemma create_todo_created:
  assumes "find_one [(''_id'', PyObjectId new_id)] c = None"
  shows "create_todo str new_id now todo c =
      (Inr (response_shape str
         ((''_id'', PyObjectId new_id) #
          [(''title'', PyStr (title todo)),
           (''description'', (case description todo of None \<Rightarrow> PyNone | Some s \<Rightarrow> PyStr s)),
           (''completed'', PyBool (completed todo)),
           (''created_at'', PyDatetime now), (''updated_at'', PyDatetime now),
           (''deleted'', PyBool False), (''deleted_at'', PyNone)])),
       c @ [((''_id'', PyObjectId new_id) #
          [(''title'', PyStr (title todo)),
           (''description'', (case description todo of None \<Rightarrow> PyNone | Some s \<Rightarrow> PyStr s)),
           (''completed'', PyBool (completed todo)),
           (''created_at'', PyDatetime now), (''updated_at'', PyDatetime now),
           (''deleted'', PyBool False), (''deleted_at'', PyNone)])])"
proof -
  let ?q = "[(''_id'', PyObjectId new_id)]"
  let ?D = "((''_id'', PyObjectId new_id) #
          [(''title'', PyStr (title todo)),
           (''description'', (case description todo of None \<Rightarrow> PyNone | Some s \<Rightarrow> PyStr s)),
           (''completed'', PyBool (completed todo)),
           (''created_at'', PyDatetime now), (''updated_at'', PyDatetime now),
           (''deleted'', PyBool False), (''deleted_at'', PyNone)])"
  from assms have n: "\<forall>x \<in> set c. \<not> matches ?q x" by (simp only: find_one_None)
  have m: "matches ?q ?D" by simp
  have i: "map_of ?D ''_id'' = Some (PyObjectId new_id)" by simp
  have f: "find_one ?q (c @ [?D]) = Some ?D" by (rule find_one_first[OF m n])
  have cd: "create_todo_document now (TodoCreate_model_dump todo) = Inr (tl ?D)"
    by (simp add: create_todo_document_def TodoCreate_model_dump_def dict_get_def)
  have ins: "insert_one (tl ?D) new_id c = Inr (new_id, c @ [?D])"
    using assms by (simp add: insert_one_def)
  show ?thesis
    unfolding create_todo_def Let_def cd
    by (simp only: ins f format_found[OF i] sum.case prod.case)
qed

lemma validate_title:
  "TodoCreate_validate body = Inr todo \<Longrightarrow>
     body_title body = Val (title todo) \<and>
     description todo = (case body_description body of Val s \<Rightarrow> Some s | _ \<Rightarrow> None) \<and>
     completed todo = (case body_completed body of Val b \<Rightarrow> b | _ \<Rightarrow> False)"
  by (auto simp: TodoCreate_validate_def Let_def split: field.splits if_splits)

text \<open>The fields of the stored record, for every body that passes validation. The
  description is the given string, and \<open>None\<close> when the body has none:
  \<open>model_dump()\<close> always holds the key \<open>description\<close>, so the default \<open>""\<close> of
  \<open>todo_dict.get("description", "")\<close> is never used.\<close>

lemma create_stored_record:
  assumes "TodoCreate_validate body = Inr todo"
    and "find_one [(''_id'', PyObjectId new_id)] c = None"
  shows "\<exists>doc. post_todos str new_id now body c = (Inr (response_shape str doc), c @ [doc]) \<and>
      body_title body = Val (title todo) \<and>
      map_of doc ''title'' = Some (PyStr (title todo)) \<and>
      map_of doc ''description'' =
        Some (case body_description body of Val s \<Rightarrow> PyStr s | _ \<Rightarrow> PyNone) \<and>
      map_of doc ''completed'' =
        Some (PyBool (case body_completed body of Val b \<Rightarrow> b | _ \<Rightarrow> False)) \<and>
      map_of doc ''created_at'' = Some (PyDatetime now) \<and>
      map_of doc ''updated_at'' = Some (PyDatetime now) \<and>
      map_of doc ''deleted'' = Some (PyBool False) \<and>
      map_of doc ''deleted_at'' = Some PyNone"
proof -
  let ?D = "((''_id'', PyObjectId new_id) #
          [(''title'', PyStr (title todo)),
           (''description'', (case description todo of None \<Rightarrow> PyNone | Some s \<Rightarrow> PyStr s)),
           (''completed'', PyBool (completed todo)),
           (''created_at'', PyDatetime now), (''updated_at'', PyDatetime now),
           (''deleted'', PyBool False), (''deleted_at'', PyNone)])"
  from validate_title[OF assms(1)] have
    v1: "body_title body = Val (title todo)"
    and v2: "description todo = (case body_description body of Val s \<Rightarrow> Some s | _ \<Rightarrow> None)"
    and v3: "completed todo = (case body_completed body of Val b \<Rightarrow> b | _ \<Rightarrow> False)"
    by simp_all
  have r: "post_todos str new_id now body c = (Inr (response_shape str ?D), c @ [?D])"
    using create_todo_created[OF assms(2), of str now todo]
    by (simp only: post_todos_def assms(1) sum.case)
  have t: "map_of ?D ''title'' = Some (PyStr (title todo))" by simp
  have ds: "map_of ?D ''description'' =
      Some (case body_description body of Val s \<Rightarrow> PyStr s | _ \<Rightarrow> PyNone)"
    by (simp add: v2 split: field.splits)
  have cp: "map_of ?D ''completed'' =
      Some (PyBool (case body_completed body of Val b \<Rightarrow> b | _ \<Rightarrow> False))"
    by (simp add: v3)
  have ca: "map_of ?D ''created_at'' = Some (PyDatetime now)" by simp
  have ua: "map_of ?D ''updated_at'' = Some (PyDatetime now)" by simp
  have dl: "map_of ?D ''deleted'' = Some (PyBool False)" by simp
  have da: "map_of ?D ''deleted_at'' = Some PyNone" by simp
  from r v1 t ds cp ca ua dl da show ?thesis
    by (intro exI[of _ ?D] conjI)
qed

text \<open>
  C5. A created record has the title of the request, \<open>completed\<close> false unless given,
  \<open>created_at\<close> equal to \<open>updated_at\<close>, \<open>deleted\<close> false and \<open>deleted_at\<close> null, and its
  description is to default to the empty string. The request \<open>{"title": "buy milk"}\<close> on
  the empty store: the stored and returned description is \<open>None\<close>, not the empty string.
\<close>

theorem create_without_description_stores_null:
  "TodoCreate_validate
      \<lparr>body_title = Val ''buy milk'', body_description = Absent, body_completed = Absent\<rparr> =
     Inr \<lparr>title = ''buy milk'', description = None, completed = False\<rparr> \<and>
   find_one [(''_id'', PyObjectId 1)] [] = None \<and>
   (\<exists>doc. post_todos example_str 1 100
        \<lparr>body_title = Val ''buy milk'', body_description = Absent, body_completed = Absent\<rparr> [] =
        (Inr (response_shape example_str doc), [] @ [doc]) \<and>
      map_of doc ''title'' = Some (PyStr ''buy milk'') \<and>
      map_of doc ''description'' = Some PyNone \<and>
      map_of doc ''description'' \<noteq> Some (PyStr []) \<and>
      map_of doc ''completed'' = Some (PyBool False)) \<and>
   post_todos example_str 1 100
       \<lparr>body_title = Val ''buy milk'', body_description = Absent, body_completed = Absent\<rparr> [] =
     (Inr (response_shape example_str example_todo), [example_todo])"
proof -
  let ?b = "\<lparr>body_title = Val ''buy milk'', body_description = Absent, body_completed = Absent\<rparr>"
  let ?t = "\<lparr>title = ''buy milk'', description = None, completed = False\<rparr>"
  have h1: "TodoCreate_validate ?b = Inr ?t" by (simp add: TodoCreate_validate_def)
  have h2: "find_one [(''_id'', PyObjectId 1)] [] = None" by (simp add: find_one_def)
  from create_stored_record[where str = example_str and now = 100, OF h1 h2]
  obtain doc where
    r: "post_todos example_str 1 100 ?b [] = (Inr (response_shape example_str doc), [] @ [doc])"
    and t: "map_of doc ''title'' = Some (PyStr (title ?t))"
    and ds: "map_of doc ''description'' =
        Some (case body_description ?b of Val s \<Rightarrow> PyStr s | _ \<Rightarrow> PyNone)"
    and cp: "map_of doc ''completed'' =
        Some (PyBool (case body_completed ?b of Val b \<Rightarrow> b | _ \<Rightarrow> False))"
    by (elim exE conjE)
  from t have t': "map_of doc ''title'' = Some (PyStr ''buy milk'')" by simp
  from ds have ds': "map_of doc ''description'' = Some PyNone" by simp
  then have ds'': "map_of doc ''description'' \<noteq> Some (PyStr [])" by simp
  from cp have cp': "map_of doc ''completed'' = Some (PyBool False)" by simp
  from r t' ds' ds'' cp' have ex:
    "\<exists>doc. post_todos example_str 1 100 ?b [] =
        (Inr (response_shape example_str doc), [] @ [doc]) \<and>
      map_of doc ''title'' = Some (PyStr ''buy milk'') \<and>
      map_of doc ''description'' = Some PyNone \<and>
      map_of doc ''description'' \<noteq> Some (PyStr []) \<and>
      map_of doc ''completed'' = Some (PyBool False)"
    by (intro exI conjI)
  have e: "post_todos example_str 1 100 ?b [] =
     (Inr (response_shape example_str example_todo), [example_todo])"
    by (simp add: handler_defs)
  from h1 h2 ex e show ?thesis by (intro conjI)
qed

lemma validate_no_title:
  "body_title body = Absent \<or> body_title body = Null \<Longrightarrow>
     \<exists>errs. TodoCreate_validate body = Inl errs \<and> ''title'' \<in> set errs"
  by (auto simp: TodoCreate_validate_def Let_def split: field.splits)

lemma validate_with_title:
  "body_title body = Val t \<Longrightarrow> body_completed body \<noteq> Null \<Longrightarrow>
     \<exists>todo. TodoCreate_validate body = Inr todo \<and> title todo = t"
  by (auto simp: TodoCreate_validate_def Let_def split: field.splits)

text \<open>
  C9. A create request must carry a title: when the title is absent (or null), validation
  rejects the request with status 400 and the collection stays as it was. Any string is
  a title, the empty one included: with a title, a valid \<open>completed\<close> and an unused
  identifier, the record is stored with that title.
\<close>

theorem create_requires_title:
  "(body_title body = Absent \<or> body_title body = Null \<longrightarrow>
      (\<exists>errs. post_todos str new_id now body c = (Inl (RequestValidationError errs), c) \<and>
         ''title'' \<in> set errs \<and> status_code (RequestValidationError errs) = 400)) \<and>
   (body_title body = Val t \<and> body_completed body \<noteq> Null \<and>
    find_one [(''_id'', PyObjectId new_id)] c = None \<longrightarrow>
      (\<exists>doc. post_todos str new_id now body c = (Inr (response_shape str doc), c @ [doc]) \<and>
         map_of doc ''title'' = Some (PyStr t)))"
proof (intro conjI impI)
  assume "body_title body = Absent \<or> body_title body = Null"
  from validate_no_title[OF this] obtain errs where
    "TodoCreate_validate body = Inl errs" and "''title'' \<in> set errs" by blast
  then show "\<exists>errs. post_todos str new_id now body c = (Inl (RequestValidationError errs), c) \<and>
      ''title'' \<in> set errs \<and> status_code (RequestValidationError errs) = 400"
    by (simp add: post_todos_def)
next
  assume a: "body_title body = Val t \<and> body_completed body \<noteq> Null \<and>
    find_one [(''_id'', PyObjectId new_id)] c = None"
  then obtain todo where v: "TodoCreate_validate body = Inr todo" and t: "title todo = t"
    using validate_with_title by blast
  from a have f: "find_one [(''_id'', PyObjectId new_id)] c = None" by simp
  let ?D = "((''_id'', PyObjectId new_id) #
          [(''title'', PyStr (title todo)),
           (''description'', (case description todo of None \<Rightarrow> PyNone | Some s \<Rightarrow> PyStr s)),
           (''completed'', PyBool (completed todo)),
           (''created_at'', PyDatetime now), (''updated_at'', PyDatetime now),
           (''deleted'', PyBool False), (''deleted_at'', PyNone)])"
  have "post_todos str new_id now body c = (Inr (response_shape str ?D), c @ [?D])"
    using create_todo_created[OF f, of str now todo]
    by (simp only: post_todos_def v sum.case)
  moreover have "map_of ?D ''title'' = Some (PyStr t)" by (simp add: t)
  ultimately show "\<exists>doc. post_todos str new_id now body c =
      (Inr (response_shape str doc), c @ [doc]) \<and> map_of doc ''title'' = Some (PyStr t)"
    by (intro exI[of _ ?D] conjI)
qed

text \<open>Example: a body without a title, and a body whose title is the empty string.\<close>

theorem create_requires_title_witness:
  "(\<exists>errs. post_todos example_str 1 100
        \<lparr>body_title = Absent, body_description = Val ''x'', body_completed = Val True\<rparr> [] =
        (Inl (RequestValidationError errs), []) \<and>
      ''title'' \<in> set errs \<and> status_code (RequestValidationError errs) = 400) \<and>
   (\<exists>doc. post_todos example_str 1 100
        \<lparr>body_title = Val [], body_description = Absent, body_completed = Absent\<rparr> [] =
        (Inr (response_shape example_str doc), [] @ [doc]) \<and>
      map_of doc ''title'' = Some (PyStr []))"
proof -
  let ?b1 = "\<lparr>body_title = Absent, body_description = Val ''x'', body_completed = Val True\<rparr>"
  let ?b2 = "\<lparr>body_title = Val [], body_description = Absent, body_completed = Absent\<rparr>"
  have a1: "body_title ?b1 = Absent \<or> body_title ?b1 = Null" by simp
  have a2: "body_title ?b2 = Val [] \<and> body_completed ?b2 \<noteq> Null \<and>
      find_one [(''_id'', PyObjectId 1)] [] = None"
    by (simp add: find_one_def)
  from create_requires_title[where body = ?b1 and str = example_str and new_id = 1
         and now = 100 and c = "[]", THEN conjunct1, THEN mp, OF a1]
  have x: "\<exists>errs. post_todos example_str 1 100 ?b1 [] = (Inl (RequestValidationError errs), []) \<and>
      ''title'' \<in> set errs \<and> status_code (RequestValidationError errs) = 400"
    .
  from create_requires_title[where body = ?b2 and t = "[]" and str = example_str
         and new_id = 1 and now = 100 and c = "[]", THEN conjunct2, THEN mp, OF a2]
  have y: "\<exists>doc. post_todos example_str 1 100 ?b2 [] =
        (Inr (response_shape example_str doc), [] @ [doc]) \<and>
      map_of doc ''title'' = Some (PyStr [])"
    .
  from x y show ?thesis by (intro conjI)
qed

text \<open>The request \<open>{"title": ""}\<close> on the empty store is accepted and its record is
  stored.\<close>

theorem empty_title_accepted:
  "post_todos example_str 1 100
      \<lparr>body_title = Val [], body_description = Absent, body_completed = Absent\<rparr> [] =
     (Inr [(''title'', PyStr []), (''description'', PyNone), (''completed'', PyBool False),
           (''created_at'', PyDatetime 100), (''updated_at'', PyDatetime 100),
           (''deleted'', PyBool False), (''deleted_at'', PyNone),
           (''id'', PyStr ''65f1a2b3c4d5e6f7a8b9c001'')],
      [[(''_id'', PyObjectId 1), (''title'', PyStr []), (''description'', PyNone),
        (''completed'', PyBool False), (''created_at'', PyDatetime 100),
        (''updated_at'', PyDatetime 100), (''deleted'', PyBool False),
        (''deleted_at'', PyNone)]])"
  by (simp add: handler_defs)

end
